theory Spec2Isabelle
  imports Main "HOL-Library.Word"
begin

section \<open>The upload and retrieval handlers of i.magiccap (src/main.py)\<close>

text \<open>
  The two request handlers \<open>upload\<close> and \<open>image_view\<close> and the streaming class
  \<open>SanicS3Stream\<close> are embedded as functions over an explicit state. Python exceptions
  are values of type \<open>exn\<close>; a handler returns \<open>Inl e\<close> when the exception \<open>e\<close>
  leaves it uncaught and \<open>Inr r\<close> when it returns the response \<open>r\<close>.

  Python strings are modelled as \<open>string\<close>, each \<open>char\<close> standing for one code point
  below 256; byte strings are lists of 8-bit words.
\<close>

subsection \<open>Data\<close>

type_synonym bytes = "8 word list"

datatype exn =
    KeyError string
  | IndexError
  | ClientError string
  | BotoCoreError string
  | ReqlError string

text \<open>
  \<open>ClientError code\<close> is \<open>botocore.exceptions.ClientError\<close>, raised for every error
  response of the storage service, with the service's error code (\<open>NoSuchKey\<close>,
  \<open>AccessDenied\<close>, \<open>SlowDown\<close>, ...). \<open>BotoCoreError\<close> stands for the exceptions of
  botocore that are not a \<open>ClientError\<close> (connection failures, missing credentials),
  \<open>ReqlError\<close> for the exceptions of the RethinkDB driver.
\<close>

fun is_ClientError :: "exn \<Rightarrow> bool" where
  "is_ClientError (ClientError code) = True"
| "is_ClientError e = False"

text \<open>\<open>sanic.request.File\<close>: a named tuple of type, body and name.\<close>

record File =
  type :: string
  body :: bytes
  name :: string

text \<open>
  The request, as far as \<open>upload\<close> reads it: the header dictionary and the dictionary
  of file parts, which maps a field name to the list of parts of that name.
\<close>

record Request =
  headers :: "string \<rightharpoonup> string"
  files :: "string \<rightharpoonup> File list"

text \<open>
  An item of the asynchronous iterator \<open>stream.iter_chunks()\<close>: a tuple of the data
  read and the end-of-chunk flag, or an exception raised while reading.
\<close>

datatype stream_item = Chunk "bytes \<times> bool" | Raise exn

text \<open>The result of \<open>get_object\<close>, with the two entries \<open>image_view\<close> reads.\<close>

record s3_response =
  ContentType :: string
  Body :: "stream_item list"

datatype SanicS3Stream = SanicS3Stream (s3_response: s3_response)

datatype response_body =
    JsonBody "(string \<times> string) list"
  | TextBody string
  | StreamingFn SanicS3Stream

record HTTPResponse =
  status :: nat
  content_type :: string
  resp_body :: response_body

definition response_json :: "(string \<times> string) list \<Rightarrow> nat \<Rightarrow> HTTPResponse" where
  "response_json b st = \<lparr>status = st, content_type = ''application/json'', resp_body = JsonBody b\<rparr>"

definition response_text :: "string \<Rightarrow> nat \<Rightarrow> HTTPResponse" where
  "response_text b st =
     \<lparr>status = st, content_type = ''text/plain; charset=utf-8'', resp_body = TextBody b\<rparr>"

definition response_stream :: "SanicS3Stream \<Rightarrow> string \<Rightarrow> HTTPResponse" where
  "response_stream streaming_fn ct = \<lparr>status = 200, content_type = ct, resp_body = StreamingFn streaming_fn\<rparr>"

subsection \<open>The collaborators: environment, installation registry, object storage\<close>

type_synonym document = "(string \<times> string) list"

text \<open>
  What the handlers cannot control: the process environment, the rows of the table
  \<open>installs\<close> by primary key, the exception (if any) with which a call to the registry
  or to the storage service fails, and the way a read stream delivers a stored body.
\<close>

record backend =
  environ :: "string \<rightharpoonup> string"
  installs :: "string \<rightharpoonup> document"
  run_error :: "exn option"
  put_error :: "exn option"
  get_error :: "exn option"
  iter_chunks :: "bytes \<Rightarrow> stream_item list"

text \<open>
  What a request changes: the objects of the storage service by bucket and key, each
  a body with its content type; the log of the \<open>put_object\<close> calls that completed
  (bucket, key, body, content type); the state of the random generator, as the sequence
  of the numbers it will draw.
\<close>

record state =
  objects :: "string \<times> string \<rightharpoonup> bytes \<times> string"
  puts :: "(string \<times> string \<times> bytes \<times> string) list"
  rng :: "nat \<Rightarrow> nat"

text \<open>\<open>r.table("installs").get(key).run(app.conn)\<close>: the row, or \<open>None\<close>.\<close>

definition table_get :: "backend \<Rightarrow> string \<Rightarrow> exn + document option" where
  "table_get w key = (case run_error w of Some e \<Rightarrow> Inl e | None \<Rightarrow> Inr (installs w key))"

text \<open>Python's \<open>not install\<close>: true of \<open>None\<close> and of the empty dictionary.\<close>

fun falsy :: "document option \<Rightarrow> bool" where
  "falsy None = True"
| "falsy (Some d) = (d = [])"

text \<open>
  \<open>app.client.put_object(Bucket=, Key=, Body=, ContentType=)\<close>: the call fails and
  writes nothing, or stores the object under the key, replacing any object there.
\<close>

definition put_object :: "backend \<Rightarrow> state \<Rightarrow> string \<Rightarrow> string \<Rightarrow> bytes \<Rightarrow> string \<Rightarrow> exn + state" where
  "put_object w s bucket key b ct =
     (case put_error w of
        Some e \<Rightarrow> Inl e
      | None \<Rightarrow> Inr (s\<lparr>objects := (objects s)((bucket, key) \<mapsto> (b, ct)),
                        puts := puts s @ [(bucket, key, b, ct)]\<rparr>))"

text \<open>
  \<open>app.client.get_object(Bucket=, Key=)\<close>: the call fails, or the key holds no object
  and the service answers \<open>NoSuchKey\<close>, or the result carries the stored content type
  and a stream of the stored body.
\<close>

definition get_object :: "backend \<Rightarrow> state \<Rightarrow> string \<Rightarrow> string \<Rightarrow> exn + s3_response" where
  "get_object w s bucket key =
     (case get_error w of
        Some e \<Rightarrow> Inl e
      | None \<Rightarrow>
          (case objects s (bucket, key) of
             None \<Rightarrow> Inl (ClientError ''NoSuchKey'')
           | Some (b, ct) \<Rightarrow> Inr \<lparr>ContentType = ct, Body = iter_chunks w b\<rparr>))"

subsection \<open>Strings and random choice\<close>

text \<open>\<open>str.split(sep)\<close> with a separator of one character.\<close>

fun split :: "char \<Rightarrow> string \<Rightarrow> string list" where
  "split sep [] = [[]]"
| "split sep (c # cs) =
     (if c = sep then [] # split sep cs
      else (case split sep cs of [] \<Rightarrow> [[c]] | p # ps \<Rightarrow> (c # p) # ps))"

text \<open>\<open>list.pop()\<close>: the last element, \<open>IndexError\<close> on the empty list.\<close>

definition pop :: "'a list \<Rightarrow> exn + 'a" where
  "pop xs = (if xs = [] then Inl IndexError else Inr (last xs))"

text \<open>
  \<open>str.lower()\<close> on code points below 256: the letters A to Z and the capital letters
  of the Latin-1 block (192 to 222 without the multiplication sign 215) move up by 32.
\<close>

definition lower_char :: "char \<Rightarrow> char" where
  "lower_char c =
     (let n = (of_char c :: nat)
      in if (65 \<le> n \<and> n \<le> 90) \<or> (192 \<le> n \<and> n \<le> 222 \<and> n \<noteq> 215)
         then char_of (n + 32) else c)"

definition lower :: "string \<Rightarrow> string" where
  "lower s = map lower_char s"

definition ascii_lowercase :: string where
  "ascii_lowercase = ''abcdefghijklmnopqrstuvwxyz''"

text \<open>
  \<open>random.choice(seq)\<close> on a non-empty sequence: the element at an index below
  \<open>len(seq)\<close> taken from the next draw of the generator.
\<close>

definition random_choice :: "'a list \<Rightarrow> (nat \<Rightarrow> nat) \<Rightarrow> 'a \<times> (nat \<Rightarrow> nat)" where
  "random_choice seq g = (seq ! (g 0 mod length seq), \<lambda>i. g (Suc i))"

text \<open>\<open>[random.choice(string.ascii_lowercase) for i in range(n)]\<close>\<close>

fun random_letters :: "nat \<Rightarrow> (nat \<Rightarrow> nat) \<Rightarrow> string \<times> (nat \<Rightarrow> nat)" where
  "random_letters 0 g = ([], g)"
| "random_letters (Suc n) g =
     (let (c, g') = random_choice ascii_lowercase g;
          (cs, g'') = random_letters n g'
      in (c # cs, g''))"

subsection \<open>upload\<close>

definition upload :: "backend \<Rightarrow> state \<Rightarrow> Request \<Rightarrow> (exn + HTTPResponse) \<times> state" where
  "upload w s req =
     (case headers req ''Authorization'' of
        None \<Rightarrow> (Inr (response_json [(''error'', ''No authorization header present.'')] 400), s)
      | Some auth_header \<Rightarrow>
          (let auth_header_split = split CHR '' '' auth_header in
           if length auth_header_split \<noteq> 2
           then (Inr (response_json [(''error'', ''Invalid authorization header present.'')] 400), s)
           else
             (case table_get w (auth_header_split ! 1) of
                Inl e \<Rightarrow> (Inl e, s)
              | Inr install \<Rightarrow>
                  if falsy install
                  then (Inr (response_json [(''error'', ''Invalid installation ID.'')] 400), s)
                  else
                    (case files req ''data'' of
                       None \<Rightarrow> (Inr (response_json [(''error'', ''No data found.'')] 400), s)
                     | Some [] \<Rightarrow> (Inl IndexError, s)
                     | Some (file_0 # rest) \<Rightarrow>
                         (let (filename, g) = random_letters 8 (rng s);
                              s1 = s\<lparr>rng := g\<rparr>
                          in case pop (split CHR ''.'' (name file_0)) of
                               Inl e \<Rightarrow> (Inl e, s1)
                             | Inr last_part \<Rightarrow>
                                 (let ext = lower last_part in
                                  case environ w ''AWS_BUCKET'' of
                                    None \<Rightarrow> (Inl (KeyError ''AWS_BUCKET''), s1)
                                  | Some bucket \<Rightarrow>
                                      (case put_object w s1 bucket (filename @ ''.'' @ ext)
                                              (body file_0) (type file_0) of
                                         Inl e \<Rightarrow> (Inl e, s1)
                                       | Inr s2 \<Rightarrow>
                                           (Inr (response_json
                                              [(''url'', ''https://i.magiccap.me/'' @ filename @ ''.'' @ ext)]
                                              200), s2))))))))"

subsection \<open>SanicS3Stream and image_view\<close>

text \<open>
  \<open>SanicS3Stream.__call__\<close>: the loop over the chunks of the body writes the first
  component of each item to the response, which is modelled as the list of the byte
  strings written so far. The result is the exception that ended the loop, if any, and
  the response.
\<close>

fun write_chunks :: "stream_item list \<Rightarrow> bytes list \<Rightarrow> exn option \<times> bytes list" where
  "write_chunks [] response = (None, response)"
| "write_chunks (Chunk chunk # stream) response = write_chunks stream (response @ [fst chunk])"
| "write_chunks (Raise e # stream) response = (Some e, response)"

definition SanicS3Stream_call :: "SanicS3Stream \<Rightarrow> bytes list \<Rightarrow> exn option \<times> bytes list" where
  "SanicS3Stream_call self response = write_chunks (Body (s3_response self)) response"

definition image_view :: "backend \<Rightarrow> state \<Rightarrow> string \<Rightarrow> exn + HTTPResponse" where
  "image_view w s item =
     (case environ w ''AWS_BUCKET'' of
        None \<Rightarrow> Inl (KeyError ''AWS_BUCKET'')
      | Some bucket \<Rightarrow>
          (case get_object w s bucket item of
             Inl e \<Rightarrow> if is_ClientError e then Inr (response_text ''Not found.'' 404) else Inl e
           | Inr get_res \<Rightarrow> Inr (response_stream (SanicS3Stream get_res) (ContentType get_res))))"


subsection \<open>Whitespace-separated tokens, as the specification words the header rule\<close>

text \<open>
  The specification asks for exactly two whitespace-separated tokens. This definition
  follows those words, not the source: a token is a maximal run of characters that are
  not whitespace (space, tab, line feed, vertical tab, form feed, carriage return).
\<close>

definition is_whitespace :: "char \<Rightarrow> bool" where
  "is_whitespace c = (c \<in> set [CHR '' '', CHR 0x09, CHR 0x0A, CHR 0x0B, CHR 0x0C, CHR 0x0D])"

fun fields :: "string \<Rightarrow> string list" where
  "fields [] = [[]]"
| "fields (c # cs) =
     (if is_whitespace c then [] # fields cs
      else (case fields cs of [] \<Rightarrow> [[c]] | p # ps \<Rightarrow> (c # p) # ps))"

definition spec_tokens :: "string \<Rightarrow> string list" where
  "spec_tokens h = filter (\<lambda>t. t \<noteq> []) (fields h)"

subsection \<open>Sample inputs\<close>

text \<open>
  A backend with the bucket configured, one registered installation and no failing
  call, whose read streams deliver a body byte by byte; an empty store whose random
  generator draws 0, 1, 2, ...; a request that presents a header and one file part.
\<close>

definition byte_chunks :: "bytes \<Rightarrow> stream_item list" where
  "byte_chunks b = map (\<lambda>x. Chunk ([x], False)) b"

definition sample_backend :: backend where
  "sample_backend =
     \<lparr>environ = [''AWS_BUCKET'' \<mapsto> ''magiccap''],
      installs = [''install-1'' \<mapsto> [(''id'', ''install-1'')]],
      run_error = None, put_error = None, get_error = None,
      iter_chunks = byte_chunks\<rparr>"

definition sample_state :: state where
  "sample_state = \<lparr>objects = Map.empty, puts = [], rng = (\<lambda>i. i)\<rparr>"

definition sample_file :: "string \<Rightarrow> File" where
  "sample_file filename = \<lparr>type = ''image/png'', body = [137, 80, 78, 71], name = filename\<rparr>"

definition sample_request :: "string \<Rightarrow> string \<Rightarrow> Request" where
  "sample_request auth_header filename =
     \<lparr>headers = [''Authorization'' \<mapsto> auth_header],
      files = [''data'' \<mapsto> [sample_file filename]]\<rparr>"

definition succeeded :: "exn + HTTPResponse \<Rightarrow> bool" where
  "succeeded out = (case out of Inl e \<Rightarrow> False | Inr r \<Rightarrow> status r = 200)"

section \<open>Properties\<close>

subsection \<open>Splitting and random letters\<close>

lemma split_not_Nil: "split sep s \<noteq> []"
  by (induction s) (auto split: list.splits)

lemma length_split: "length (split sep s) = Suc (count_list s sep)"
  by (induction s) (auto split: list.splits simp: split_not_Nil)

lemma split_no_sep: "sep \<notin> set s \<Longrightarrow> split sep s = [s]"
  by (induction s) auto

lemma split_append_sep: "split sep (a @ sep # b) = split sep a @ split sep b"
proof (induction a)
  case Nil
  show ?case by simp
next
  case (Cons c a)
  obtain p ps where ps: "split sep a = p # ps"
    using split_not_Nil [of sep a] by (cases "split sep a") auto
  with Cons show ?case by simp
qed

lemma last_split_append: "last (split sep (a @ sep # b)) = last (split sep b)"
  by (simp add: split_append_sep split_not_Nil)

lemma last_split_suffix:
  assumes "sep \<notin> set e"
  shows "last (split sep (stem @ sep # e)) = e"
  using assms by (simp add: last_split_append split_no_sep)

lemma random_choice_mem: "seq \<noteq> [] \<Longrightarrow> fst (random_choice seq g) \<in> set seq"
  by (simp add: random_choice_def)

lemma random_letters_length: "length (fst (random_letters n g)) = n"
proof (induction n arbitrary: g)
  case 0
  show ?case by simp
next
  case (Suc n)
  obtain c g' where c: "random_choice ascii_lowercase g = (c, g')"
    by (cases "random_choice ascii_lowercase g")
  obtain cs g'' where cs: "random_letters n g' = (cs, g'')"
    by (cases "random_letters n g'")
  from Suc.IH [of g'] cs have "length cs = n" by simp
  with c cs show ?case by simp
qed

lemma random_letters_set: "set (fst (random_letters n g)) \<subseteq> set ascii_lowercase"
proof (induction n arbitrary: g)
  case 0
  show ?case by simp
next
  case (Suc n)
  obtain c g' where c: "random_choice ascii_lowercase g = (c, g')"
    by (cases "random_choice ascii_lowercase g")
  obtain cs g'' where cs: "random_letters n g' = (cs, g'')"
    by (cases "random_letters n g'")
  have "ascii_lowercase \<noteq> []" by (simp add: ascii_lowercase_def)
  from random_choice_mem [OF this, of g] c have "c \<in> set ascii_lowercase" by simp
  moreover from Suc.IH [of g'] cs have "set cs \<subseteq> set ascii_lowercase" by simp
  ultimately show ?case using c cs by simp
qed

lemma pop_split: "pop (split sep s) = Inr (last (split sep s))"
  by (simp add: pop_def split_not_Nil)

subsection \<open>The path of an authorized upload\<close>

lemma split_header:
  assumes "CHR '' '' \<notin> set scheme" and "CHR '' '' \<notin> set credential"
  shows "split CHR '' '' (scheme @ '' '' @ credential) = [scheme, credential]"
  using assms by (simp add: split_append_sep split_no_sep)

lemma upload_authorized:
  assumes "headers req ''Authorization'' = Some (scheme @ '' '' @ credential)"
    and "CHR '' '' \<notin> set scheme" and "CHR '' '' \<notin> set credential"
    and "run_error w = None" and "installs w credential = Some d" and "d \<noteq> []"
  shows "upload w s req =
     (case files req ''data'' of
        None \<Rightarrow> (Inr (response_json [(''error'', ''No data found.'')] 400), s)
      | Some [] \<Rightarrow> (Inl IndexError, s)
      | Some (f # rest) \<Rightarrow>
          (case environ w ''AWS_BUCKET'' of
             None \<Rightarrow> (Inl (KeyError ''AWS_BUCKET''), s\<lparr>rng := snd (random_letters 8 (rng s))\<rparr>)
           | Some bucket \<Rightarrow>
               (case put_object w (s\<lparr>rng := snd (random_letters 8 (rng s))\<rparr>) bucket
                       (fst (random_letters 8 (rng s)) @ ''.'' @ lower (last (split CHR ''.'' (name f))))
                       (body f) (type f) of
                  Inl e \<Rightarrow> (Inl e, s\<lparr>rng := snd (random_letters 8 (rng s))\<rparr>)
                | Inr s2 \<Rightarrow>
                    (Inr (response_json
                       [(''url'', ''https://i.magiccap.me/'' @ fst (random_letters 8 (rng s)) @ ''.''
                           @ lower (last (split CHR ''.'' (name f))))] 200), s2))))"
proof -
  have sp: "split CHR '' '' (scheme @ CHR '' '' # credential) = [scheme, credential]"
    using split_header [OF assms(2,3)] by simp
  show ?thesis
    unfolding upload_def
    by (simp add: assms(1,4,5,6) sp table_get_def pop_split Let_def case_prod_beta
          split: option.split list.split sum.split)
qed


lemma upload_success:
  assumes "upload w s req = (Inr r, s')" and "status r = 200"
  shows "\<exists>f rest bucket.
      files req ''data'' = Some (f # rest) \<and> environ w ''AWS_BUCKET'' = Some bucket \<and>
      r = response_json [(''url'', ''https://i.magiccap.me/'' @ fst (random_letters 8 (rng s)) @ ''.''
             @ lower (last (split CHR ''.'' (name f))))] 200 \<and>
      s' = s\<lparr>rng := snd (random_letters 8 (rng s)),
             objects := (objects s)((bucket, fst (random_letters 8 (rng s)) @ ''.''
                 @ lower (last (split CHR ''.'' (name f)))) \<mapsto> (body f, type f)),
             puts := puts s @ [(bucket, fst (random_letters 8 (rng s)) @ ''.''
                 @ lower (last (split CHR ''.'' (name f))), body f, type f)]\<rparr>"
  using assms unfolding upload_def
  by (auto simp: Let_def case_prod_beta pop_split put_object_def response_json_def
        split: option.splits if_splits sum.splits list.splits)

lemma upload_failure:
  assumes "upload w s req = (out, s')" and "\<not> succeeded out"
  shows "puts s' = puts s \<and> objects s' = objects s"
  using assms unfolding upload_def
  by (auto simp: Let_def case_prod_beta pop_split put_object_def response_json_def succeeded_def
        split: option.splits if_splits sum.splits list.splits)

lemma upload_refused:
  assumes "headers req ''Authorization'' = None
      \<or> (\<exists>h. headers req ''Authorization'' = Some h \<and> count_list h CHR '' '' \<noteq> 1)
      \<or> (\<exists>h. headers req ''Authorization'' = Some h \<and> installs w (split CHR '' '' h ! 1) = None)
      \<or> files req ''data'' = None"
  shows "\<not> succeeded (fst (upload w s req))"
  using assms unfolding upload_def
  by (auto simp: Let_def case_prod_beta pop_split response_json_def succeeded_def length_split
        table_get_def
        split: option.splits sum.splits list.splits)

subsection \<open>The sample upload\<close>

lemma sample_letters: "fst (random_letters 8 (rng sample_state)) = ''abcdefgh''"
  by code_simp

lemma lower_PNG: "lower ''PNG'' = ''png''"
  by code_simp

lemma lower_README: "lower ''README'' = ''readme''"
  by code_simp

lemma sample_upload:
  "upload sample_backend sample_state (sample_request ''Bearer install-1'' filename) =
     (Inr (response_json [(''url'', ''https://i.magiccap.me/abcdefgh.''
              @ lower (last (split CHR ''.'' filename)))] 200),
      sample_state\<lparr>rng := snd (random_letters 8 (rng sample_state)),
        objects := (objects sample_state)((''magiccap'', ''abcdefgh.'' @ lower (last (split CHR ''.'' filename)))
            \<mapsto> (body (sample_file filename), type (sample_file filename))),
        puts := puts sample_state @ [(''magiccap'', ''abcdefgh.'' @ lower (last (split CHR ''.'' filename)),
            body (sample_file filename), type (sample_file filename))]\<rparr>)"
proof -
  have h: "headers (sample_request ''Bearer install-1'' filename) ''Authorization''
      = Some (''Bearer'' @ '' '' @ ''install-1'')"
    by (simp add: sample_request_def)
  have i: "installs sample_backend ''install-1'' = Some [(''id'', ''install-1'')]"
    by (simp add: sample_backend_def)
  have r: "run_error sample_backend = None" by (simp add: sample_backend_def)
  have f: "files (sample_request ''Bearer install-1'' filename) ''data'' = Some [sample_file filename]"
    by (simp add: sample_request_def)
  have e: "environ sample_backend ''AWS_BUCKET'' = Some ''magiccap''"
    and p: "put_error sample_backend = None"
    by (simp_all add: sample_backend_def)
  show ?thesis
    by (simp add: upload_authorized [OF h _ _ r i] f e p sample_letters put_object_def
          sample_file_def)
qed

lemma sample_state_puts: "puts sample_state = []"
  by (simp add: sample_state_def)

lemma sample_upload_succeeded:
  "succeeded (fst (upload sample_backend sample_state (sample_request ''Bearer install-1'' filename)))"
  by (simp add: sample_upload succeeded_def response_json_def)

subsection \<open>The streaming loop\<close>

lemma write_chunks_ok:
  "write_chunks stream response = (None, response') \<Longrightarrow>
     \<exists>chunks. stream = map Chunk chunks \<and> response' = response @ map fst chunks"
proof (induction stream arbitrary: response)
  case Nil
  then show ?case by simp
next
  case (Cons item stream)
  show ?case
  proof (cases item)
    case (Chunk chunk)
    with Cons.prems have "write_chunks stream (response @ [fst chunk]) = (None, response')"
      by simp
    from Cons.IH [OF this] obtain chunks where
      "stream = map Chunk chunks" and "response' = (response @ [fst chunk]) @ map fst chunks"
      by blast
    with Chunk show ?thesis
      by (intro exI [of _ "chunk # chunks"]) simp
  next
    case (Raise e)
    with Cons.prems show ?thesis by simp
  qed
qed


section \<open>Retrieval\<close>

text \<open>
  Claim C9. When the streaming function ends without an exception, the body stream
  consisted of chunks only, and what was written to the response is the data of every
  chunk, whole and in the order received; the bytes sent are their concatenation.
\<close>

theorem stream_forwards_chunks_in_order:
  assumes "SanicS3Stream_call self response = (None, response')"
  shows "\<exists>chunks. Body (s3_response self) = map Chunk chunks
           \<and> response' = response @ map fst chunks
           \<and> concat response' = concat response @ concat (map fst chunks)"
proof -
  from assms have "write_chunks (Body (s3_response self)) response = (None, response')"
    by (simp add: SanicS3Stream_call_def)
  from write_chunks_ok [OF this] obtain chunks where
    c: "Body (s3_response self) = map Chunk chunks" "response' = response @ map fst chunks"
    by blast
  then have "concat response' = concat response @ concat (map fst chunks)" by simp
  with c show ?thesis by blast
qed

theorem stream_forwards_chunks_in_order_witness:
  "SanicS3Stream_call (SanicS3Stream \<lparr>ContentType = ''image/png'', Body = byte_chunks [137, 80]\<rparr>) []
      = (None, [[137], [80]])
   \<and> (\<exists>chunks.
         Body (s3_response (SanicS3Stream \<lparr>ContentType = ''image/png'', Body = byte_chunks [137, 80]\<rparr>))
           = map Chunk chunks
         \<and> [[137], [80 :: 8 word]] = [] @ map fst chunks
         \<and> concat [[137], [80 :: 8 word]] = concat [] @ concat (map fst chunks))"
proof -
  have run: "SanicS3Stream_call
      (SanicS3Stream \<lparr>ContentType = ''image/png'', Body = byte_chunks [137, 80]\<rparr>) []
      = (None, [[137], [80]])"
    by (simp add: SanicS3Stream_call_def byte_chunks_def)
  from run stream_forwards_chunks_in_order [OF run] show ?thesis by (rule conjI)
qed

text \<open>
  Claim C8. When the storage service answers a read with \<open>NoSuchKey\<close>, the retrieval
  handler returns status 404 with the plain-text body \<open>Not found.\<close>.
\<close>

theorem not_found_is_404:
  assumes "environ w ''AWS_BUCKET'' = Some bucket"
    and "get_object w s bucket item = Inl (ClientError ''NoSuchKey'')"
  shows "image_view w s item = Inr (response_text ''Not found.'' 404)
       \<and> status (response_text ''Not found.'' 404) = 404
       \<and> resp_body (response_text ''Not found.'' 404) = TextBody ''Not found.''"
  using assms by (simp add: image_view_def response_text_def)

theorem not_found_is_404_witness:
  "environ sample_backend ''AWS_BUCKET'' = Some ''magiccap''
   \<and> get_object sample_backend sample_state ''magiccap'' ''abcdefgh.png'' = Inl (ClientError ''NoSuchKey'')
   \<and> image_view sample_backend sample_state ''abcdefgh.png'' = Inr (response_text ''Not found.'' 404)"
proof -
  have b: "environ sample_backend ''AWS_BUCKET'' = Some ''magiccap''"
    by (simp add: sample_backend_def)
  have g: "get_object sample_backend sample_state ''magiccap'' ''abcdefgh.png''
      = Inl (ClientError ''NoSuchKey'')"
    by (simp add: get_object_def sample_backend_def sample_state_def)
  from not_found_is_404 [OF b g] b g show ?thesis by simp
qed

text \<open>
  Claim C1, as stated, fails: a read that the storage service refuses with
  \<open>AccessDenied\<close> raises a \<open>ClientError\<close>, which \<open>image_view\<close> catches like a missing key,
  so the answer is the same 404 response and no exception leaves the handler.
\<close>

theorem access_denied_is_404_counterexample:
  "get_object (sample_backend\<lparr>get_error := Some (ClientError ''AccessDenied'')\<rparr>) sample_state
      ''magiccap'' ''abcdefgh.png'' = Inl (ClientError ''AccessDenied'')
   \<and> image_view (sample_backend\<lparr>get_error := Some (ClientError ''AccessDenied'')\<rparr>) sample_state
      ''abcdefgh.png'' = Inr (response_text ''Not found.'' 404)"
  by (simp add: image_view_def get_object_def sample_backend_def)

text \<open>
  Claim C1, amended. A failed storage read leaves the handler uncaught exactly when the
  exception is not a \<open>ClientError\<close> (a connection failure, for one); every
  \<open>ClientError\<close>, whatever its error code, is answered with the 404 response.
\<close>

theorem only_client_errors_are_caught:
  assumes "environ w ''AWS_BUCKET'' = Some bucket"
    and "get_object w s bucket item = Inl e"
  shows "image_view w s item =
          (if is_ClientError e then Inr (response_text ''Not found.'' 404) else Inl e)"
  using assms by (simp add: image_view_def)

theorem only_client_errors_are_caught_witness:
  "image_view (sample_backend\<lparr>get_error := Some (BotoCoreError ''EndpointConnectionError'')\<rparr>)
      sample_state ''abcdefgh.png'' = Inl (BotoCoreError ''EndpointConnectionError'')
   \<and> image_view (sample_backend\<lparr>get_error := Some (ClientError ''SlowDown'')\<rparr>)
      sample_state ''abcdefgh.png'' = Inr (response_text ''Not found.'' 404)"
proof -
  let ?w1 = "sample_backend\<lparr>get_error := Some (BotoCoreError ''EndpointConnectionError'')\<rparr>"
  let ?w2 = "sample_backend\<lparr>get_error := Some (ClientError ''SlowDown'')\<rparr>"
  have b1: "environ ?w1 ''AWS_BUCKET'' = Some ''magiccap''"
    and b2: "environ ?w2 ''AWS_BUCKET'' = Some ''magiccap''"
    by (simp_all add: sample_backend_def)
  have g1: "get_object ?w1 sample_state ''magiccap'' ''abcdefgh.png''
      = Inl (BotoCoreError ''EndpointConnectionError'')"
    and g2: "get_object ?w2 sample_state ''magiccap'' ''abcdefgh.png''
      = Inl (ClientError ''SlowDown'')"
    by (simp_all add: get_object_def)
  from only_client_errors_are_caught [OF b1 g1] only_client_errors_are_caught [OF b2 g2]
  show ?thesis by simp
qed

section \<open>Upload\<close>

text \<open>
  Claim C7. Each of the three authorization failures of an upload (no authorization
  header, a header that does not split into two parts at its spaces, a credential that
  the registry does not know) is answered with status 400 and a JSON object with the
  one member \<open>error\<close>, and the three messages are pairwise distinct.
\<close>

theorem authorization_failures:
  "(headers req ''Authorization'' = None \<longrightarrow>
      upload w s req = (Inr (response_json [(''error'', ''No authorization header present.'')] 400), s))
   \<and> (headers req ''Authorization'' = Some h \<and> count_list h CHR '' '' \<noteq> 1 \<longrightarrow>
      upload w s req = (Inr (response_json [(''error'', ''Invalid authorization header present.'')] 400), s))
   \<and> (headers req ''Authorization'' = Some (scheme @ '' '' @ credential)
        \<and> CHR '' '' \<notin> set scheme \<and> CHR '' '' \<notin> set credential
        \<and> run_error w = None \<and> installs w credential = None \<longrightarrow>
      upload w s req = (Inr (response_json [(''error'', ''Invalid installation ID.'')] 400), s))
   \<and> status (response_json b 400) = 400
   \<and> content_type (response_json b 400) = ''application/json''
   \<and> resp_body (response_json b 400) = JsonBody b
   \<and> distinct [''No authorization header present.'', ''Invalid authorization header present.'',
        ''Invalid installation ID.'']"
proof -
  have absent: "upload w s req
      = (Inr (response_json [(''error'', ''No authorization header present.'')] 400), s)"
    if "headers req ''Authorization'' = None"
    using that by (simp add: upload_def)
  have malformed: "upload w s req
      = (Inr (response_json [(''error'', ''Invalid authorization header present.'')] 400), s)"
    if "headers req ''Authorization'' = Some h" and "count_list h CHR '' '' \<noteq> 1"
    using that by (simp add: upload_def length_split)
  have unknown: "upload w s req
      = (Inr (response_json [(''error'', ''Invalid installation ID.'')] 400), s)"
    if hd: "headers req ''Authorization'' = Some (scheme @ '' '' @ credential)"
      and ns: "CHR '' '' \<notin> set scheme" "CHR '' '' \<notin> set credential"
      and reg: "run_error w = None" "installs w credential = None"
  proof -
    have sp: "split CHR '' '' (scheme @ CHR '' '' # credential) = [scheme, credential]"
      using split_header [OF ns] by simp
    show ?thesis
      using hd reg by (simp add: upload_def sp table_get_def)
  qed
  have shape: "status (response_json b 400) = 400"
    "content_type (response_json b 400) = ''application/json''"
    "resp_body (response_json b 400) = JsonBody b"
    by (simp_all add: response_json_def)
  have msgs: "distinct [''No authorization header present.'',
      ''Invalid authorization header present.'', ''Invalid installation ID.'']"
    by simp
  from absent malformed unknown shape msgs show ?thesis by blast
qed

theorem authorization_failures_witness:
  "upload sample_backend sample_state ((sample_request ''Bearer install-1'' ''photo.PNG'')\<lparr>headers := Map.empty\<rparr>)
      = (Inr (response_json [(''error'', ''No authorization header present.'')] 400), sample_state)
   \<and> upload sample_backend sample_state (sample_request ''install-1'' ''photo.PNG'')
      = (Inr (response_json [(''error'', ''Invalid authorization header present.'')] 400), sample_state)
   \<and> upload sample_backend sample_state (sample_request ''Bearer install-2'' ''photo.PNG'')
      = (Inr (response_json [(''error'', ''Invalid installation ID.'')] 400), sample_state)"
proof -
  let ?r1 = "(sample_request ''Bearer install-1'' ''photo.PNG'')\<lparr>headers := Map.empty\<rparr>"
  have "headers ?r1 ''Authorization'' = None" by simp
  with authorization_failures [of ?r1 sample_backend sample_state]
  have a: "upload sample_backend sample_state ?r1
      = (Inr (response_json [(''error'', ''No authorization header present.'')] 400), sample_state)"
    by blast
  let ?r2 = "sample_request ''install-1'' ''photo.PNG''"
  have "headers ?r2 ''Authorization'' = Some ''install-1'' \<and> count_list ''install-1'' CHR '' '' \<noteq> 1"
    by (simp add: sample_request_def)
  with authorization_failures [of ?r2 sample_backend sample_state "''install-1''"]
  have b: "upload sample_backend sample_state ?r2
      = (Inr (response_json [(''error'', ''Invalid authorization header present.'')] 400), sample_state)"
    by blast
  let ?r3 = "sample_request ''Bearer install-2'' ''photo.PNG''"
  have "headers ?r3 ''Authorization'' = Some (''Bearer'' @ '' '' @ ''install-2'')
      \<and> CHR '' '' \<notin> set ''Bearer'' \<and> CHR '' '' \<notin> set ''install-2''
      \<and> run_error sample_backend = None \<and> installs sample_backend ''install-2'' = None"
    by (simp add: sample_request_def sample_backend_def)
  with authorization_failures [of ?r3 sample_backend sample_state _ "''Bearer''" "''install-2''"]
  have c: "upload sample_backend sample_state ?r3
      = (Inr (response_json [(''error'', ''Invalid installation ID.'')] 400), sample_state)"
    by blast
  from a b c show ?thesis by simp
qed





text \<open>
  Claim C3, as stated, fails. The header is split at every single space, so two tokens
  separated by two spaces give three parts and two tokens separated by a tab give one
  part: both headers consist of exactly two whitespace-separated tokens and both are
  answered with the 400 response for an invalid header.
\<close>

theorem two_tokens_rejected_counterexample:
  "length (spec_tokens ''Bearer  install-1'') = 2
   \<and> fst (upload sample_backend sample_state (sample_request ''Bearer  install-1'' ''photo.PNG''))
      = Inr (response_json [(''error'', ''Invalid authorization header present.'')] 400)
   \<and> length (spec_tokens (''Bearer'' @ [CHR 0x09] @ ''install-1'')) = 2
   \<and> fst (upload sample_backend sample_state
        (sample_request (''Bearer'' @ [CHR 0x09] @ ''install-1'') ''photo.PNG''))
      = Inr (response_json [(''error'', ''Invalid authorization header present.'')] 400)"
  by (simp add: spec_tokens_def is_whitespace_def upload_def sample_request_def)

text \<open>
  Claim C3, amended. A present authorization header is answered with the 400 response
  \<open>Invalid authorization header present.\<close> if and only if the number of space
  characters in it differs from one; the two parts around the one space may be empty
  or contain other whitespace.
\<close>

theorem header_shape_is_one_space:
  assumes "headers req ''Authorization'' = Some h"
  shows "(fst (upload w s req)
            = Inr (response_json [(''error'', ''Invalid authorization header present.'')] 400))
         = (count_list h CHR '' '' \<noteq> 1)"
proof (cases "count_list h CHR '' '' = 1")
  case True
  then have len: "length (split CHR '' '' h) = 2" by (simp add: length_split)
  have "fst (upload w s req)
      \<noteq> Inr (response_json [(''error'', ''Invalid authorization header present.'')] 400)"
    unfolding upload_def
    by (simp add: assms len Let_def case_prod_beta pop_split response_json_def
          split: option.split sum.split list.split)
  with True show ?thesis by simp
next
  case False
  then have "length (split CHR '' '' h) \<noteq> 2" by (simp add: length_split)
  with assms have "fst (upload w s req)
      = Inr (response_json [(''error'', ''Invalid authorization header present.'')] 400)"
    by (simp add: upload_def)
  with False show ?thesis by simp
qed

theorem header_shape_is_one_space_witness:
  "fst (upload sample_backend sample_state (sample_request ''Bearer install-1'' ''photo.PNG''))
      \<noteq> Inr (response_json [(''error'', ''Invalid authorization header present.'')] 400)
   \<and> fst (upload sample_backend sample_state (sample_request ''Bearer  install-1'' ''photo.PNG''))
      = Inr (response_json [(''error'', ''Invalid authorization header present.'')] 400)
   \<and> fst (upload sample_backend sample_state (sample_request '' install-1'' ''photo.PNG''))
      \<noteq> Inr (response_json [(''error'', ''Invalid authorization header present.'')] 400)"
proof -
  have h1: "headers (sample_request ''Bearer install-1'' ''photo.PNG'') ''Authorization''
      = Some ''Bearer install-1''"
    and h2: "headers (sample_request ''Bearer  install-1'' ''photo.PNG'') ''Authorization''
      = Some ''Bearer  install-1''"
    and h3: "headers (sample_request '' install-1'' ''photo.PNG'') ''Authorization''
      = Some '' install-1''"
    by (simp_all add: sample_request_def)
  from header_shape_is_one_space [OF h1, of sample_backend sample_state]
    header_shape_is_one_space [OF h2, of sample_backend sample_state]
    header_shape_is_one_space [OF h3, of sample_backend sample_state]
  show ?thesis by simp
qed


text \<open>
  Claim C2, as stated, fails. For the file name \<open>README\<close>, which has no dot, the last
  part of the split is the whole name: the key is the prefix, the separator and the
  lower-cased name, not the prefix alone.
\<close>

theorem dotless_filename_keeps_separator_counterexample:
  "CHR ''.'' \<notin> set ''README''
   \<and> fst (upload sample_backend sample_state (sample_request ''Bearer install-1'' ''README''))
      = Inr (response_json [(''url'', ''https://i.magiccap.me/abcdefgh.readme'')] 200)
   \<and> fst (upload sample_backend sample_state (sample_request ''Bearer install-1'' ''README''))
      \<noteq> Inr (response_json [(''url'', ''https://i.magiccap.me/abcdefgh'')] 200)
   \<and> puts (snd (upload sample_backend sample_state (sample_request ''Bearer install-1'' ''README'')))
      = [(''magiccap'', ''abcdefgh.readme'', [137, 80, 78, 71], ''image/png'')]"
  by (simp add: sample_upload lower_README response_json_def sample_file_def sample_state_puts)

text \<open>
  Claim C2, amended. For an authorized upload of a file whose name has no dot, with the
  bucket configured and a storage write that does not fail, key generation raises
  nothing: the upload succeeds, and the key is the prefix of 8 lowercase letters, the
  separator and the whole lower-cased file name.
\<close>

theorem dotless_filename_key:
  assumes "headers req ''Authorization'' = Some (scheme @ '' '' @ credential)"
    and "CHR '' '' \<notin> set scheme" and "CHR '' '' \<notin> set credential"
    and "run_error w = None" and "installs w credential = Some d" and "d \<noteq> []"
    and "files req ''data'' = Some (f # rest)" and "CHR ''.'' \<notin> set (name f)"
    and "environ w ''AWS_BUCKET'' = Some bucket" and "put_error w = None"
  shows "\<exists>prefix. length prefix = 8 \<and> set prefix \<subseteq> set ascii_lowercase
      \<and> fst (upload w s req)
          = Inr (response_json [(''url'', ''https://i.magiccap.me/'' @ prefix @ ''.'' @ lower (name f))] 200)
      \<and> puts (snd (upload w s req))
          = puts s @ [(bucket, prefix @ ''.'' @ lower (name f), body f, type f)]"
proof -
  let ?prefix = "fst (random_letters 8 (rng s))"
  have ext: "last (split CHR ''.'' (name f)) = name f"
    using assms(8) by (simp add: split_no_sep)
  have "fst (upload w s req)
       = Inr (response_json [(''url'', ''https://i.magiccap.me/'' @ ?prefix @ ''.'' @ lower (name f))] 200)
     \<and> puts (snd (upload w s req))
       = puts s @ [(bucket, ?prefix @ ''.'' @ lower (name f), body f, type f)]"
    by (simp add: upload_authorized [OF assms(1-6)] assms(7,9,10) ext put_object_def)
  moreover have "length ?prefix = 8" by (rule random_letters_length)
  moreover have "set ?prefix \<subseteq> set ascii_lowercase" by (rule random_letters_set)
  ultimately show ?thesis by blast
qed

theorem dotless_filename_key_witness:
  "CHR ''.'' \<notin> set (name (sample_file ''README''))
   \<and> (\<exists>prefix. length prefix = 8 \<and> set prefix \<subseteq> set ascii_lowercase
      \<and> fst (upload sample_backend sample_state (sample_request ''Bearer install-1'' ''README''))
          = Inr (response_json [(''url'', ''https://i.magiccap.me/'' @ prefix @ ''.''
                @ lower (name (sample_file ''README'')))] 200)
      \<and> puts (snd (upload sample_backend sample_state (sample_request ''Bearer install-1'' ''README'')))
          = puts sample_state @ [(''magiccap'', prefix @ ''.'' @ lower (name (sample_file ''README'')),
                body (sample_file ''README''), type (sample_file ''README''))])"
proof -
  let ?r = "sample_request ''Bearer install-1'' ''README''"
  have h: "headers ?r ''Authorization'' = Some (''Bearer'' @ '' '' @ ''install-1'')"
    and f: "files ?r ''data'' = Some (sample_file ''README'' # [])"
    by (simp_all add: sample_request_def)
  have ns: "CHR '' '' \<notin> set ''Bearer''" "CHR '' '' \<notin> set ''install-1''" by simp_all
  have r: "run_error sample_backend = None"
    and i: "installs sample_backend ''install-1'' = Some [(''id'', ''install-1'')]"
    and e: "environ sample_backend ''AWS_BUCKET'' = Some ''magiccap''"
    and p: "put_error sample_backend = None"
    by (simp_all add: sample_backend_def)
  have d: "[(''id'', ''install-1'')] \<noteq> []" by simp
  have n: "CHR ''.'' \<notin> set (name (sample_file ''README''))" by (simp add: sample_file_def)
  from n dotless_filename_key [OF h ns r i d f n e p, of sample_state] show ?thesis
    by (rule conjI)
qed

text \<open>
  Claim C6. After a successful upload the key under which the object was written, and
  which the returned URL ends with, is a prefix of exactly 8 lowercase ASCII letters,
  the separator \<open>.\<close> and the extension: whenever the file name is \<open>stem.e\<close> with no dot
  in \<open>e\<close>, the extension is \<open>e\<close> lower-cased.
\<close>

theorem key_is_eight_letters_and_extension:
  assumes "succeeded (fst (upload w s req))"
  shows "\<exists>f rest bucket prefix ext.
      files req ''data'' = Some (f # rest)
      \<and> length prefix = 8 \<and> set prefix \<subseteq> set ascii_lowercase
      \<and> (\<forall>stem e. name f = stem @ ''.'' @ e \<and> CHR ''.'' \<notin> set e \<longrightarrow> ext = lower e)
      \<and> fst (upload w s req)
          = Inr (response_json [(''url'', ''https://i.magiccap.me/'' @ prefix @ ''.'' @ ext)] 200)
      \<and> puts (snd (upload w s req)) = puts s @ [(bucket, prefix @ ''.'' @ ext, body f, type f)]"
proof -
  let ?prefix = "fst (random_letters 8 (rng s))"
  from assms obtain r where r: "fst (upload w s req) = Inr r" and st: "status r = 200"
    by (auto simp: succeeded_def split: sum.splits)
  from r have "upload w s req = (Inr r, snd (upload w s req))"
    by (metis prod.collapse)
  from upload_success [OF this st] obtain f rest bucket where
    f: "files req ''data'' = Some (f # rest)"
    and rr: "r = response_json [(''url'', ''https://i.magiccap.me/'' @ ?prefix @ ''.''
             @ lower (last (split CHR ''.'' (name f))))] 200"
    and pp: "puts (snd (upload w s req)) = puts s @ [(bucket, ?prefix @ ''.''
                 @ lower (last (split CHR ''.'' (name f))), body f, type f)]"
    by auto
  let ?ext = "lower (last (split CHR ''.'' (name f)))"
  have "\<forall>stem e. name f = stem @ ''.'' @ e \<and> CHR ''.'' \<notin> set e \<longrightarrow> ?ext = lower e"
    by (auto simp: last_split_suffix)
  moreover have "length ?prefix = 8" by (rule random_letters_length)
  moreover have "set ?prefix \<subseteq> set ascii_lowercase" by (rule random_letters_set)
  moreover from r rr have "fst (upload w s req)
      = Inr (response_json [(''url'', ''https://i.magiccap.me/'' @ ?prefix @ ''.'' @ ?ext)] 200)"
    by simp
  ultimately show ?thesis using f pp by blast
qed


theorem key_is_eight_letters_and_extension_witness:
  "succeeded (fst (upload sample_backend sample_state (sample_request ''Bearer install-1'' ''photo.PNG'')))
   \<and> fst (upload sample_backend sample_state (sample_request ''Bearer install-1'' ''photo.PNG''))
      = Inr (response_json [(''url'', ''https://i.magiccap.me/abcdefgh.png'')] 200)
   \<and> (\<exists>f rest bucket prefix ext.
      files (sample_request ''Bearer install-1'' ''photo.PNG'') ''data'' = Some (f # rest)
      \<and> length prefix = 8 \<and> set prefix \<subseteq> set ascii_lowercase
      \<and> (\<forall>stem e. name f = stem @ ''.'' @ e \<and> CHR ''.'' \<notin> set e \<longrightarrow> ext = lower e)
      \<and> fst (upload sample_backend sample_state (sample_request ''Bearer install-1'' ''photo.PNG''))
          = Inr (response_json [(''url'', ''https://i.magiccap.me/'' @ prefix @ ''.'' @ ext)] 200)
      \<and> puts (snd (upload sample_backend sample_state (sample_request ''Bearer install-1'' ''photo.PNG'')))
          = puts sample_state @ [(bucket, prefix @ ''.'' @ ext, body f, type f)])"
proof -
  let ?up = "upload sample_backend sample_state (sample_request ''Bearer install-1'' ''photo.PNG'')"
  have ok: "succeeded (fst ?up)" by (rule sample_upload_succeeded)
  have url: "fst ?up = Inr (response_json [(''url'', ''https://i.magiccap.me/abcdefgh.png'')] 200)"
    by (simp add: sample_upload lower_PNG)
  show ?thesis
    by (rule conjI [OF ok conjI [OF url key_is_eight_letters_and_extension [OF ok]]])
qed

text \<open>
  Claim C5. A call of the upload handler that succeeds appends exactly one write to the
  log of completed writes, the first file part named \<open>data\<close> with its body and content
  type; a call that does not succeed leaves the log and the stored objects as they
  were; and a missing header, a malformed header, an unknown installation and a missing
  \<open>data\<close> field each make the call not succeed.
\<close>

theorem upload_writes_one_object_or_none:
  assumes "upload w s req = (out, s')"
  shows "(succeeded out \<longrightarrow>
          (\<exists>bucket key f rest. files req ''data'' = Some (f # rest)
             \<and> puts s' = puts s @ [(bucket, key, body f, type f)]
             \<and> objects s' = (objects s)((bucket, key) \<mapsto> (body f, type f))))
       \<and> (\<not> succeeded out \<longrightarrow> puts s' = puts s \<and> objects s' = objects s)
       \<and> (headers req ''Authorization'' = None
            \<or> (\<exists>h. headers req ''Authorization'' = Some h \<and> count_list h CHR '' '' \<noteq> 1)
            \<or> (\<exists>scheme credential. headers req ''Authorization'' = Some (scheme @ '' '' @ credential)
                  \<and> CHR '' '' \<notin> set scheme \<and> CHR '' '' \<notin> set credential
                  \<and> installs w credential = None)
            \<or> files req ''data'' = None
          \<longrightarrow> \<not> succeeded out)"
proof (intro conjI impI)
  assume "succeeded out"
  then obtain r where "out = Inr r" and "status r = 200"
    by (auto simp: succeeded_def split: sum.splits)
  with assms have "upload w s req = (Inr r, s')" by simp
  from upload_success [OF this \<open>status r = 200\<close>]
  show "\<exists>bucket key f rest. files req ''data'' = Some (f # rest)
      \<and> puts s' = puts s @ [(bucket, key, body f, type f)]
      \<and> objects s' = (objects s)((bucket, key) \<mapsto> (body f, type f))"
    by auto
next
  assume "\<not> succeeded out"
  with assms show "puts s' = puts s" and "objects s' = objects s"
    by (simp_all add: upload_failure)
next
  assume refused: "headers req ''Authorization'' = None
      \<or> (\<exists>h. headers req ''Authorization'' = Some h \<and> count_list h CHR '' '' \<noteq> 1)
      \<or> (\<exists>scheme credential. headers req ''Authorization'' = Some (scheme @ '' '' @ credential)
            \<and> CHR '' '' \<notin> set scheme \<and> CHR '' '' \<notin> set credential
            \<and> installs w credential = None)
      \<or> files req ''data'' = None"
  let ?refused = "headers req ''Authorization'' = None
      \<or> (\<exists>h. headers req ''Authorization'' = Some h \<and> count_list h CHR '' '' \<noteq> 1)
      \<or> (\<exists>h. headers req ''Authorization'' = Some h \<and> installs w (split CHR '' '' h ! 1) = None)
      \<or> files req ''data'' = None"
  from refused have ?refused
  proof (elim disjE exE conjE)
    fix scheme credential
    assume "headers req ''Authorization'' = Some (scheme @ '' '' @ credential)"
      and "CHR '' '' \<notin> set scheme" and "CHR '' '' \<notin> set credential"
      and "installs w credential = None"
    then have "headers req ''Authorization'' = Some (scheme @ '' '' @ credential)
        \<and> installs w (split CHR '' '' (scheme @ '' '' @ credential) ! 1) = None"
      using split_header [of scheme credential] by simp
    then have "\<exists>h. headers req ''Authorization'' = Some h
        \<and> installs w (split CHR '' '' h ! 1) = None" ..
    then show ?refused by simp
  qed simp_all
  from upload_refused [OF this, of s] assms show "\<not> succeeded out" by simp
qed


theorem upload_writes_one_object_or_none_witness:
  "succeeded (fst (upload sample_backend sample_state (sample_request ''Bearer install-1'' ''photo.PNG'')))
   \<and> (\<exists>bucket key. puts (snd (upload sample_backend sample_state
            (sample_request ''Bearer install-1'' ''photo.PNG'')))
        = puts sample_state @ [(bucket, key, body (sample_file ''photo.PNG''), type (sample_file ''photo.PNG''))])
   \<and> \<not> succeeded (fst (upload sample_backend sample_state
            ((sample_request ''Bearer install-1'' ''photo.PNG'')\<lparr>headers := Map.empty\<rparr>)))
   \<and> puts (snd (upload sample_backend sample_state
            ((sample_request ''Bearer install-1'' ''photo.PNG'')\<lparr>headers := Map.empty\<rparr>)))
        = puts sample_state"
proof -
  let ?ok = "sample_request ''Bearer install-1'' ''photo.PNG''"
  let ?bad = "?ok\<lparr>headers := Map.empty\<rparr>"
  let ?up = "upload sample_backend sample_state"
  have e1: "?up ?ok = (fst (?up ?ok), snd (?up ?ok))"
    and e2: "?up ?bad = (fst (?up ?bad), snd (?up ?bad))"
    by simp_all
  note t1 = upload_writes_one_object_or_none [OF e1]
  note t2 = upload_writes_one_object_or_none [OF e2]
  have ok: "succeeded (fst (?up ?ok))" by (rule sample_upload_succeeded)
  with t1 obtain bucket key f rest where
    f: "files ?ok ''data'' = Some (f # rest)"
    and p: "puts (snd (?up ?ok)) = puts sample_state @ [(bucket, key, body f, type f)]"
    by blast
  from f have "f = sample_file ''photo.PNG''" by (simp add: sample_request_def)
  with p have one: "\<exists>bucket key. puts (snd (?up ?ok))
      = puts sample_state @ [(bucket, key, body (sample_file ''photo.PNG''), type (sample_file ''photo.PNG''))]"
    by blast
  have "headers ?bad ''Authorization'' = None" by simp
  with t2 have bad: "\<not> succeeded (fst (?up ?bad))" by blast
  with t2 have none: "puts (snd (?up ?bad)) = puts sample_state" by blast
  from ok one bad none show ?thesis by blast
qed




end
